theory Spec2Isabelle
  imports Complex_Main
begin

section \<open>JavaScript values used by the components\<close>

text \<open>
  A JavaScript number is a finite value, NaN or one of the two infinities. A finite value
  is kept as the rational it denotes; the results of arithmetic are rounded to binary64
  (\<open>round64\<close> below). The two zeros are one value \<open>Num 0\<close>: they behave alike under
  \<open>!x\<close>, \<open>x !== 0\<close>, \<open><\<close> and \<open>></\<close>, and no quotient in the source has a divisor that can
  be \<open>-0\<close>.
\<close>

datatype jsnum = Num rat | NaN | PosInf | NegInf

text \<open>The operator \<open><\<close> on numbers: any comparison with NaN is false.\<close>

fun js_lt :: "jsnum \<Rightarrow> jsnum \<Rightarrow> bool" where
  "js_lt (Num a) (Num b) = (a < b)"
| "js_lt (Num a) PosInf = True"
| "js_lt NegInf (Num b) = True"
| "js_lt NegInf PosInf = True"
| "js_lt _ _ = False"

text \<open>A field of an object: \<open>None\<close> is \<open>undefined\<close> (the field is absent).\<close>

type_synonym jsval = "jsnum option"

definition to_number :: "jsval \<Rightarrow> jsnum" where
  "to_number v = (case v of None \<Rightarrow> NaN | Some x \<Rightarrow> x)"

text \<open>Truthiness: \<open>undefined\<close>, NaN and zero are falsy.\<close>

definition truthy :: "jsval \<Rightarrow> bool" where
  "truthy v = (case v of None \<Rightarrow> False | Some NaN \<Rightarrow> False
                | Some (Num q) \<Rightarrow> q \<noteq> 0 | Some _ \<Rightarrow> True)"

definition lt :: "jsval \<Rightarrow> rat \<Rightarrow> bool" where
  "lt v c = js_lt (to_number v) (Num c)"

definition gt :: "jsval \<Rightarrow> rat \<Rightarrow> bool" where
  "gt v c = js_lt (Num c) (to_number v)"

text \<open>\<open>x || 0\<close> on a number.\<close>

definition or_zero :: "jsnum \<Rightarrow> jsnum" where
  "or_zero x = (if truthy (Some x) then x else Num 0)"


text \<open>What a \<open>catch\<close> clause receives, and how an awaited \<open>fetch\<close> followed by
  \<open>response.json()\<close> ends: a rejection (of \<open>fetch\<close> or of \<open>json()\<close>), a response whose
  \<open>ok\<close> is false, or the parsed body.\<close>

datatype thrown = Error string | NonError

datatype 'a fetched = Rejects thrown | NotOk | Json 'a

record toast =
  title :: string
  description :: string
  destructive :: bool

section \<open>PredictionForm.tsx and the Index page\<close>

record PredictionData =
  Pregnancies :: jsval
  Glucose :: jsval
  BloodPressure :: jsval
  BMI :: jsval
  Age :: jsval

record PredictionResult =
  prediction :: string
  probability :: jsnum
  risk_score :: jsnum
  confidence_level :: string

record FormState =
  formData :: PredictionData
  loading :: bool
  result :: "PredictionResult option"
  error :: string

record IndexState =
  currentPrediction :: "PredictionData option"
  refreshTrigger :: int

datatype request =
    PostPredict PredictionData
  | PostWhatIf string string PredictionData

text \<open>The page: the form's state, the Index component's state, the toasts shown and the
  requests sent so far.\<close>

record App =
  form :: FormState
  index :: IndexState
  toasts :: "toast list"
  requests :: "request list"

definition zeroData :: PredictionData where
  "zeroData = \<lparr>Pregnancies = Some (Num 0), Glucose = Some (Num 0),
     BloodPressure = Some (Num 0), BMI = Some (Num 0), Age = Some (Num 0)\<rparr>"

definition initialForm :: FormState where
  "initialForm = \<lparr>formData = zeroData, loading = False, result = None, error = []\<rparr>"

definition initialIndex :: IndexState where
  "initialIndex = \<lparr>currentPrediction = None, refreshTrigger = 0\<rparr>"

definition initialApp :: App where
  "initialApp = \<lparr>form = initialForm, index = initialIndex, toasts = [], requests = []\<rparr>"

text \<open>\<open>{ ...prev, [name]: v }\<close>: the inputs of the form carry the five names below; any
  other name would add a property beside the five fields and leave them as they are.\<close>

definition set_field :: "string \<Rightarrow> jsval \<Rightarrow> PredictionData \<Rightarrow> PredictionData" where
  "set_field name v prev =
     (if name = ''Pregnancies'' then prev\<lparr>Pregnancies := v\<rparr>
      else if name = ''Glucose'' then prev\<lparr>Glucose := v\<rparr>
      else if name = ''BloodPressure'' then prev\<lparr>BloodPressure := v\<rparr>
      else if name = ''BMI'' then prev\<lparr>BMI := v\<rparr>
      else if name = ''Age'' then prev\<lparr>Age := v\<rparr>
      else prev)"

text \<open>\<open>handleInputChange\<close>; \<open>parsed\<close> is the value of \<open>parseFloat(e.target.value)\<close>.\<close>

definition handleInputChange :: "string \<Rightarrow> jsnum \<Rightarrow> FormState \<Rightarrow> FormState" where
  "handleInputChange name parsed s =
     s\<lparr>formData := set_field name (Some (or_zero parsed)) (formData s), error := []\<rparr>"

definition resetForm :: "FormState \<Rightarrow> FormState" where
  "resetForm s = s\<lparr>formData := zeroData, result := None, error := []\<rparr>"

text \<open>\<open>validateForm\<close>: \<open>Some msg\<close> is \<open>setError(msg); return false\<close>, \<open>None\<close> is
  \<open>return true\<close>.\<close>

definition validateForm :: "PredictionData \<Rightarrow> string option" where
  "validateForm d =
     (if \<not> truthy (Pregnancies d) \<and> Pregnancies d \<noteq> Some (Num 0)
        then Some ''All fields are required''
      else if lt (Pregnancies d) 0 \<or> gt (Pregnancies d) 20
        then Some ''Pregnancies must be between 0 and 20''
      else if lt (Glucose d) 0 \<or> gt (Glucose d) 300
        then Some ''Glucose must be between 0 and 300 mg/dL''
      else if lt (BloodPressure d) 0 \<or> gt (BloodPressure d) 200
        then Some ''Blood Pressure must be between 0 and 200 mmHg''
      else if lt (BMI d) 10 \<or> gt (BMI d) 70
        then Some ''BMI must be between 10 and 70''
      else if lt (Age d) 1 \<or> gt (Age d) 120
        then Some ''Age must be between 1 and 120''
      else None)"

definition handlePredictionComplete :: "PredictionData \<Rightarrow> IndexState \<Rightarrow> IndexState" where
  "handlePredictionComplete d i =
     i\<lparr>currentPrediction := Some d, refreshTrigger := refreshTrigger i + 1\<rparr>"

text \<open>The message the \<open>catch\<close> clause of a handler shows: the message of an \<open>Error\<close>,
  the handler's fallback text for anything else. A response that is not ok throws an
  \<open>Error\<close> with the handler's own text.\<close>

definition caught :: "string \<Rightarrow> string \<Rightarrow> 'a fetched \<Rightarrow> string" where
  "caught notOkText fallback r =
     (case r of Rejects (Error m) \<Rightarrow> m | Rejects NonError \<Rightarrow> fallback
        | NotOk \<Rightarrow> notOkText | Json _ \<Rightarrow> [])"

text \<open>\<open>handleSubmit\<close> of the form, run to completion; \<open>r\<close> is how the awaited request
  ends, should one be sent.\<close>

definition handleSubmit :: "PredictionResult fetched \<Rightarrow> App \<Rightarrow> App" where
  "handleSubmit r s =
     (case validateForm (formData (form s)) of
        Some msg \<Rightarrow> s\<lparr>form := (form s)\<lparr>error := msg\<rparr>\<rparr>
      | None \<Rightarrow>
          (let d = formData (form s);
               sent = s\<lparr>form := (form s)\<lparr>loading := True, error := [], result := None\<rparr>,
                        requests := requests s @ [PostPredict d]\<rparr>
           in case r of
                Json res \<Rightarrow>
                  sent\<lparr>form := (form sent)\<lparr>result := Some res, loading := False\<rparr>,
                       index := handlePredictionComplete d (index sent),
                       toasts := toasts sent @
                         [\<lparr>title = ''Prediction Complete'',
                           description =
                             (if prediction res = ''Diabetic''
                              then ''Risk detected. Please consult a healthcare professional.''
                              else ''Low risk detected. Continue healthy habits!''),
                           destructive = False\<rparr>]\<rparr>
              | _ \<Rightarrow>
                  (let errorMessage =
                         caught ''Failed to get prediction'' ''Failed to connect to API'' r
                   in sent\<lparr>form := (form sent)\<lparr>error := errorMessage, loading := False\<rparr>,
                           toasts := toasts sent @
                             [\<lparr>title = ''Error'', description = errorMessage,
                               destructive = True\<rparr>]\<rparr>)))"

text \<open>What \<open>parseFloat\<close> returns on the value of one of the form's inputs. The five
  inputs have \<open>type="number"\<close>: their value is the text of a finite number, or the empty
  string when the text typed is none, so \<open>parseFloat\<close> gives a finite number or NaN.\<close>

definition number_input :: "jsnum \<Rightarrow> bool" where
  "number_input parsed = (case parsed of Num q \<Rightarrow> True | NaN \<Rightarrow> True | _ \<Rightarrow> False)"

text \<open>The states the page can reach from its first render through the form's handlers.\<close>

inductive reachable :: "App \<Rightarrow> bool" where
  initial: "reachable initialApp"
| change: "reachable s \<Longrightarrow> number_input parsed \<Longrightarrow>
     reachable (s\<lparr>form := handleInputChange name parsed (form s)\<rparr>)"
| reset: "reachable s \<Longrightarrow> reachable (s\<lparr>form := resetForm (form s)\<rparr>)"
| submit: "reachable s \<Longrightarrow> reachable (handleSubmit r s)"




text \<open>The candidate \<open>{}\<close>: all five fields absent.\<close>

definition absentData :: PredictionData where
  "absentData = \<lparr>Pregnancies = None, Glucose = None, BloodPressure = None, BMI = None,
     Age = None\<rparr>"

text \<open>Whether a message contains a word (a field's name, say).\<close>

definition mentions :: "string \<Rightarrow> string \<Rightarrow> bool" where
  "mentions msg w = list_ex (\<lambda>i. take (length w) (drop i msg) = w) [0..<Suc (length msg)]"

section \<open>The first Index page (a form of text fields)\<close>

text \<open>The form keeps what was typed; \<open>parseInt\<close> and \<open>parseFloat\<close> are the language's own
  and are parameters here.\<close>

record TextData =
  PregnanciesText :: string
  GlucoseText :: string
  BloodPressureText :: string
  BMIText :: string
  AgeText :: string

record TextPage =
  textData :: TextData
  textLoading :: bool
  diabetic :: "bool option"
  textError :: string
  textToasts :: "toast list"
  textRequests :: "request list"

definition validateTextForm ::
    "(string \<Rightarrow> jsnum) \<Rightarrow> (string \<Rightarrow> jsnum) \<Rightarrow> TextData \<Rightarrow> string option" where
  "validateTextForm parseInt parseFloat d =
     (if PregnanciesText d = [] \<or> GlucoseText d = [] \<or> BloodPressureText d = [] \<or>
         BMIText d = [] \<or> AgeText d = []
        then Some ''All fields are required''
      else
        (let pregnancies = parseInt (PregnanciesText d);
             glucose = parseFloat (GlucoseText d);
             bloodPressure = parseFloat (BloodPressureText d);
             bmi = parseFloat (BMIText d);
             age = parseInt (AgeText d)
         in if js_lt pregnancies (Num 0) \<or> js_lt (Num 20) pregnancies
              then Some ''Pregnancies must be between 0 and 20''
            else if js_lt glucose (Num 0) \<or> js_lt (Num 300) glucose
              then Some ''Glucose must be between 0 and 300 mg/dL''
            else if js_lt bloodPressure (Num 0) \<or> js_lt (Num 200) bloodPressure
              then Some ''Blood Pressure must be between 0 and 200 mmHg''
            else if js_lt bmi (Num 10) \<or> js_lt (Num 70) bmi
              then Some ''BMI must be between 10 and 70''
            else if js_lt age (Num 1) \<or> js_lt (Num 120) age
              then Some ''Age must be between 1 and 120''
            else None))"

definition handleTextSubmit ::
    "(string \<Rightarrow> jsnum) \<Rightarrow> (string \<Rightarrow> jsnum) \<Rightarrow> bool fetched \<Rightarrow> TextPage \<Rightarrow> TextPage" where
  "handleTextSubmit parseInt parseFloat r s =
     (case validateTextForm parseInt parseFloat (textData s) of
        Some msg \<Rightarrow> s\<lparr>textError := msg\<rparr>
      | None \<Rightarrow>
          (let d = textData s;
               body = \<lparr>Pregnancies = Some (parseInt (PregnanciesText d)),
                        Glucose = Some (parseFloat (GlucoseText d)),
                        BloodPressure = Some (parseFloat (BloodPressureText d)),
                        BMI = Some (parseFloat (BMIText d)),
                        Age = Some (parseInt (AgeText d))\<rparr>;
               sent = s\<lparr>textLoading := True, textError := [], diabetic := None,
                        textRequests := textRequests s @ [PostPredict body]\<rparr>
           in case r of
                Json res \<Rightarrow>
                  sent\<lparr>diabetic := Some res, textLoading := False,
                       textToasts := textToasts sent @
                         [\<lparr>title = ''Prediction Complete'',
                           description =
                             (if res
                              then ''Risk detected. Please consult a healthcare professional.''
                              else ''Low risk detected. Continue healthy habits!''),
                           destructive = False\<rparr>]\<rparr>
              | _ \<Rightarrow>
                  (let errorMessage =
                         caught ''Failed to get prediction''
                           ''Failed to connect to API. Make sure the backend is running at http://127.0.0.1:8000''
                           r
                   in sent\<lparr>textError := errorMessage, textLoading := False,
                           textToasts := textToasts sent @
                             [\<lparr>title = ''Error'', description = errorMessage,
                               destructive = True\<rparr>]\<rparr>)))"

definition absentText :: TextData where
  "absentText = \<lparr>PregnanciesText = [], GlucoseText = [], BloodPressureText = [],
     BMIText = [], AgeText = []\<rparr>"

section \<open>DetailedAnalysis.tsx\<close>

record DetailedPrediction =
  detailedPrediction :: string
  detailedProbability :: jsnum
  detailedRiskScore :: jsnum
  detailedConfidence :: string
  feature_contributions :: "(string \<times> jsnum) list"
  risk_factors :: "string list"
  recommendations :: "string list"
  generated :: string

record DetailedAnalysisState =
  analysisLoading :: bool
  analysisData :: "DetailedPrediction option"
  analysisError :: string

definition initialAnalysis :: DetailedAnalysisState where
  "initialAnalysis = \<lparr>analysisLoading = True, analysisData = None, analysisError = []\<rparr>"

text \<open>\<open>fetchDetailedPrediction\<close> up to its \<open>await\<close>, and from the \<open>await\<close> on. The
  continuation reads nothing but the outcome of its own request.\<close>

definition fetchDetailedPrediction_start :: "DetailedAnalysisState \<Rightarrow> DetailedAnalysisState" where
  "fetchDetailedPrediction_start s = s\<lparr>analysisLoading := True, analysisError := []\<rparr>"

definition fetchDetailedPrediction_resume ::
    "DetailedPrediction fetched \<Rightarrow> DetailedAnalysisState \<Rightarrow> DetailedAnalysisState" where
  "fetchDetailedPrediction_resume r s =
     (case r of
        Json res \<Rightarrow> s\<lparr>analysisData := Some res, analysisLoading := False\<rparr>
      | _ \<Rightarrow> s\<lparr>analysisError :=
                 caught ''Failed to fetch detailed analysis'' ''Failed to load analysis'' r,
               analysisLoading := False\<rparr>)"

text \<open>The Index page with the analysis view shown: the Index state, the view's state and
  the inputs whose detailed request is still unanswered. The events are a completed
  prediction (\<open>handlePredictionComplete\<close>), a run of the view's effect (React runs it on
  mount and when the \<open>predictionData\<close> prop has changed; the effect has no cleanup), and
  the arrival of the answer to the request sent for an input.\<close>

record Session =
  page :: IndexState
  analysis :: DetailedAnalysisState
  pending :: "PredictionData list"

datatype event =
    PredictionComplete PredictionData
  | Effect
  | Response PredictionData "DetailedPrediction fetched"

definition initialSession :: Session where
  "initialSession = \<lparr>page = initialIndex, analysis = initialAnalysis, pending = []\<rparr>"

fun step :: "Session \<Rightarrow> event \<Rightarrow> Session" where
  "step s (PredictionComplete d) = s\<lparr>page := handlePredictionComplete d (page s)\<rparr>"
| "step s Effect =
     (case currentPrediction (page s) of
        None \<Rightarrow> s
      | Some d \<Rightarrow> s\<lparr>analysis := fetchDetailedPrediction_start (analysis s),
                    pending := pending s @ [d]\<rparr>)"
| "step s (Response d r) =
     (if d \<in> set (pending s)
      then s\<lparr>analysis := fetchDetailedPrediction_resume r (analysis s),
             pending := remove1 d (pending s)\<rparr>
      else s)"

definition run :: "Session \<Rightarrow> event list \<Rightarrow> Session" where
  "run s es = foldl step s es"

section \<open>Number formatting and arithmetic\<close>

text \<open>Rounding to binary64, to the nearest value and to the even one of two nearest. With
  \<open>2^e \<le> a < 2^(e+1)\<close> the values near \<open>a\<close> are the multiples of \<open>2^(e-52)\<close>; below
  \<open>2^-1022\<close> they are the multiples of \<open>2^-1074\<close>; a result that reaches \<open>2^1024\<close> is an
  infinity.\<close>

function bits :: "int \<Rightarrow> nat" where
  "bits n = (if n \<le> 0 then 0 else Suc (bits (n div 2)))"
  by pat_completeness auto
termination
  by (relation "measure nat") auto

declare bits.simps [simp del]

definition pow2 :: "int \<Rightarrow> rat" where
  "pow2 k = (if 0 \<le> k then 2 ^ nat k else 1 / 2 ^ nat (- k))"

text \<open>The \<open>e\<close> with \<open>2^e \<le> a < 2^(e+1)\<close>, for \<open>0 < a\<close>.\<close>

definition exponent :: "rat \<Rightarrow> int" where
  "exponent a =
     (if 1 \<le> a then int (bits \<lfloor>a\<rfloor>) - 1 else - int (bits (\<lceil>1 / a\<rceil> - 1)))"

definition round_even :: "rat \<Rightarrow> int" where
  "round_even m =
     (let f = \<lfloor>m\<rfloor>; d = m - of_int f
      in if d < 1 / 2 then f else if 1 / 2 < d then f + 1
         else if even f then f else f + 1)"

definition round64 :: "rat \<Rightarrow> jsnum" where
  "round64 q =
     (if q = 0 then Num 0
      else
        (let a = \<bar>q\<bar>;
             e = max (exponent a) (- 1022);
             u = pow2 (e - 52);
             n = round_even (a / u)
         in if 1023 < e \<or> (e = 1023 \<and> 2 ^ 53 \<le> n) then (if q < 0 then NegInf else PosInf)
            else Num (if q < 0 then - (of_int n * u) else of_int n * u)))"

text \<open>\<open>x + y\<close>.\<close>

fun js_add :: "jsnum \<Rightarrow> jsnum \<Rightarrow> jsnum" where
  "js_add (Num a) (Num b) = round64 (a + b)"
| "js_add NaN _ = NaN"
| "js_add _ NaN = NaN"
| "js_add PosInf NegInf = NaN"
| "js_add NegInf PosInf = NaN"
| "js_add PosInf _ = PosInf"
| "js_add _ PosInf = PosInf"
| "js_add NegInf _ = NegInf"
| "js_add _ NegInf = NegInf"

text \<open>\<open>x * 100\<close>.\<close>

fun times100 :: "jsnum \<Rightarrow> jsnum" where
  "times100 (Num a) = round64 (a * 100)"
| "times100 x = x"

text \<open>\<open>x / xs.length\<close>: the divisor is a length, so a zero divisor is \<open>+0\<close>.\<close>

fun div_length :: "jsnum \<Rightarrow> nat \<Rightarrow> jsnum" where
  "div_length (Num a) n =
     (if n = 0 then (if a = 0 then NaN else if 0 < a then PosInf else NegInf)
      else round64 (a / of_nat n))"
| "div_length x n = x"

fun string_of_nat :: "nat \<Rightarrow> string" where
  "string_of_nat n =
     (if n < 10 then [''0123456789'' ! n]
      else string_of_nat (n div 10) @ [''0123456789'' ! (n mod 10)])"

declare string_of_nat.simps [simp del]

text \<open>The steps of \<open>toFixed\<close> on a magnitude \<open>a\<close> with \<open>f\<close> fraction digits: the integer
  \<open>n\<close> for which \<open>n / 10^f - a\<close> is as close to zero as possible, the larger one when
  there are two; and the digits of \<open>n\<close>, padded with zeros to more than \<open>f\<close> digits, with
  the point before the last \<open>f\<close> of them.\<close>

definition nearest :: "nat \<Rightarrow> rat \<Rightarrow> nat" where
  "nearest f a = nat \<lfloor>a * 10 ^ f + 1 / 2\<rfloor>"

definition decimal :: "nat \<Rightarrow> nat \<Rightarrow> string" where
  "decimal f n =
     (let m = (if n = 0 then ''0'' else string_of_nat n);
          z = (if length m \<le> f then replicate (f + 1 - length m) (CHR ''0'') @ m else m);
          k = length z
      in if f \<noteq> 0 then take (k - f) z @ ''.'' @ drop (k - f) z else m)"

text \<open>The string \<open>toFixed\<close> returns. From \<open>10^21\<close> on the method falls back to the
  exponent notation of \<open>ToString\<close>, whose digits are not modelled.\<close>

datatype numeral_string = Str string | Exponent jsnum

definition toFixed :: "nat \<Rightarrow> jsnum \<Rightarrow> numeral_string" where
  "toFixed f x =
     (case x of
        NaN \<Rightarrow> Str ''NaN''
      | PosInf \<Rightarrow> Str ''Infinity''
      | NegInf \<Rightarrow> Str ''-Infinity''
      | Num q \<Rightarrow>
          (let s = (if q < 0 then ''-'' else []);
               a = \<bar>q\<bar>
           in if 10 ^ 21 \<le> a then Exponent x
              else Str (s @ decimal f (nearest f a))))"

section \<open>PredictionHistory.tsx\<close>

record PredictionLog =
  logTimestamp :: string
  logInput :: PredictionData
  logPrediction :: string
  logProbability :: jsnum

record HistoryData =
  total_predictions :: jsnum
  recent_predictions :: "PredictionLog list"
  historyTimestamp :: string

record ChartPoint =
  chartName :: string
  chartProbability :: numeral_string
  chartTimestamp :: string

text \<open>\<open>chartData\<close>; \<open>toLocaleTimeString\<close> stands for
  \<open>new Date(t).toLocaleTimeString()\<close>, which depends on the locale.\<close>

definition chartData :: "(string \<Rightarrow> string) \<Rightarrow> PredictionLog list \<Rightarrow> ChartPoint list" where
  "chartData toLocaleTimeString logs =
     rev (map (\<lambda>(index, log).
            \<lparr>chartName = ''#'' @ string_of_nat (index + 1),
             chartProbability = toFixed 2 (times100 (logProbability log)),
             chartTimestamp = toLocaleTimeString (logTimestamp log)\<rparr>)
          (enumerate 0 logs))"

text \<open>The text of the \<open>Avg Risk Score\<close> card.\<close>

definition avgRiskScore :: "PredictionLog list \<Rightarrow> numeral_string" where
  "avgRiskScore logs =
     toFixed 1
       (times100
          (div_length (foldl (\<lambda>acc log. js_add acc (logProbability log)) (Num 0) logs)
             (length logs)))"

text \<open>The test before the cards: \<open>!data || data.total_predictions === 0\<close>.\<close>

definition noHistory :: "HistoryData option \<Rightarrow> bool" where
  "noHistory data = (case data of None \<Rightarrow> True | Some d \<Rightarrow> total_predictions d = Num 0)"

record HistoryCards =
  totalCard :: jsnum
  latestCard :: "string option"
  avgCard :: numeral_string
  chart :: "ChartPoint list"

datatype HistoryView = Spinner | ErrorAlert string | NoHistoryYet | Cards HistoryCards

text \<open>What the component renders from its state.\<close>

definition PredictionHistory ::
    "(string \<Rightarrow> string) \<Rightarrow> bool \<Rightarrow> string \<Rightarrow> HistoryData option \<Rightarrow> HistoryView" where
  "PredictionHistory toLocaleTimeString isLoading err data =
     (if isLoading then Spinner
      else if err \<noteq> [] then ErrorAlert err
      else if noHistory data then NoHistoryYet
      else (case data of
              None \<Rightarrow> NoHistoryYet
            | Some d \<Rightarrow>
                Cards \<lparr>totalCard = total_predictions d,
                       latestCard =
                         (if recent_predictions d = [] then None
                          else Some (logPrediction (last (recent_predictions d)))),
                       avgCard = avgRiskScore (recent_predictions d),
                       chart = chartData toLocaleTimeString (recent_predictions d)\<rparr>))"

section \<open>WhatIfAnalysis.tsx\<close>

record feature =
  featureName :: string
  featureMin :: rat
  featureMax :: rat
  featureStep :: rat

definition features :: "feature list" where
  "features =
     [\<lparr>featureName = ''Pregnancies'', featureMin = 0, featureMax = 20, featureStep = 1\<rparr>,
      \<lparr>featureName = ''Glucose'', featureMin = 0, featureMax = 300, featureStep = 1\<rparr>,
      \<lparr>featureName = ''BloodPressure'', featureMin = 0, featureMax = 200, featureStep = 1\<rparr>,
      \<lparr>featureName = ''BMI'', featureMin = 10, featureMax = 70, featureStep = 1 / 10\<rparr>,
      \<lparr>featureName = ''Age'', featureMin = 1, featureMax = 120, featureStep = 1\<rparr>]"

text \<open>\<open>features.find(f => f.name === selectedFeature)\<close>; the view uses it for the
  input's \<open>min\<close>, \<open>max\<close> and \<open>step\<close> attributes and for its label only.\<close>

definition selectedFeatureInfo :: "string \<Rightarrow> feature option" where
  "selectedFeatureInfo selected = find (\<lambda>f. featureName f = selected) features"

record WhatIfResult =
  original_prediction :: string
  original_probability :: jsnum
  modified_prediction :: string
  modified_probability :: jsnum
  probability_change :: jsnum

record WhatIfState =
  selectedFeature :: string
  newValue :: string
  whatIfLoading :: bool
  whatIfResult :: "WhatIfResult option"
  whatIfToasts :: "toast list"
  whatIfRequests :: "request list"

definition initialWhatIf :: WhatIfState where
  "initialWhatIf = \<lparr>selectedFeature = ''Glucose'', newValue = [], whatIfLoading = False,
     whatIfResult = None, whatIfToasts = [], whatIfRequests = []\<rparr>"

text \<open>\<open>handleAnalyze\<close>, run to completion; \<open>initialData\<close> is the view's prop.
  \<open>PostWhatIf f v body\<close> is
  \<open>POST /what_if?modified_feature=f&new_value=v\<close> with \<open>body\<close> as its JSON body.\<close>

definition handleAnalyze ::
    "PredictionData \<Rightarrow> WhatIfResult fetched \<Rightarrow> WhatIfState \<Rightarrow> WhatIfState" where
  "handleAnalyze initialData r s =
     (if newValue s = []
      then s\<lparr>whatIfToasts := whatIfToasts s @
                [\<lparr>title = ''Error'', description = ''Please enter a value'',
                  destructive = True\<rparr>]\<rparr>
      else
        (let sent = s\<lparr>whatIfLoading := True,
                       whatIfRequests := whatIfRequests s @
                         [PostWhatIf (selectedFeature s) (newValue s) initialData]\<rparr>
         in case r of
              Json res \<Rightarrow>
                sent\<lparr>whatIfResult := Some res, whatIfLoading := False,
                     whatIfToasts := whatIfToasts sent @
                       [\<lparr>title = ''Analysis Complete'',
                         description =
                           ''Impact calculated for '' @ selectedFeature s @ '' change'',
                         destructive = False\<rparr>]\<rparr>
            | _ \<Rightarrow>
                sent\<lparr>whatIfLoading := False,
                     whatIfToasts := whatIfToasts sent @
                       [\<lparr>title = ''Error'',
                         description =
                           caught ''Failed to perform what-if analysis'' ''Analysis failed'' r,
                         destructive = True\<rparr>]\<rparr>))"

text \<open>\<open>result && result.probability_change < 0\<close>.\<close>

definition isImprovement :: "WhatIfResult option \<Rightarrow> bool" where
  "isImprovement res =
     (case res of None \<Rightarrow> False | Some r \<Rightarrow> js_lt (probability_change r) (Num 0))"

definition probabilityChangePercent :: "WhatIfResult option \<Rightarrow> numeral_string" where
  "probabilityChangePercent res =
     (case res of None \<Rightarrow> Str ''0'' | Some r \<Rightarrow> toFixed 2 (times100 (probability_change r)))"

text \<open>The alert under the two predictions: its border class, its icon, the sign before
  the percentage, and its sentence.\<close>

record ChangeAlert =
  borderClass :: string
  icon :: string
  signPrefix :: string
  percent :: numeral_string
  sentence :: string

definition changeAlert :: "WhatIfResult option \<Rightarrow> ChangeAlert" where
  "changeAlert res =
     \<lparr>borderClass = (if isImprovement res then ''border-success'' else ''border-destructive''),
      icon = (if isImprovement res then ''TrendingDown'' else ''TrendingUp''),
      signPrefix =
        (case res of
           None \<Rightarrow> []
         | Some r \<Rightarrow> if js_lt (Num 0) (probability_change r) then ''+'' else []),
      percent = probabilityChangePercent res,
      sentence =
        (if isImprovement res then ''Lowering this metric improves your risk profile''
         else ''This change increases diabetes risk'')\<rparr>"

text \<open>Modelled from the spec: the difference of two numbers as the spec writes it, of
  the numbers as they are (0.22 - 0.30 is -0.08), without rounding.\<close>

fun js_sub :: "jsnum \<Rightarrow> jsnum \<Rightarrow> jsnum" where
  "js_sub (Num a) (Num b) = Num (a - b)"
| "js_sub NaN _ = NaN"
| "js_sub _ NaN = NaN"
| "js_sub PosInf PosInf = NaN"
| "js_sub NegInf NegInf = NaN"
| "js_sub PosInf _ = PosInf"
| "js_sub _ PosInf = NegInf"
| "js_sub NegInf _ = NegInf"
| "js_sub _ NegInf = PosInf"

text \<open>Modelled from the spec: the what-if operation of the remote scoring service, which
  is not among the sources. The spec gives
  \<open>probabilityDelta = modifiedResult.probability - baselineResult.probability\<close>, and the
  service returns it as \<open>probability_change\<close> beside the two predictions.\<close>

definition probabilityDelta :: "jsnum \<Rightarrow> jsnum \<Rightarrow> jsnum" where
  "probabilityDelta baselineProbability modifiedProbability =
     js_sub modifiedProbability baselineProbability"

text \<open>Modelled from the spec: the body the what-if operation of the remote service
  answers with, \<open>{original_prediction, original_probability, modified_prediction,
  modified_probability, probability_change}\<close>, the last being \<open>probabilityDelta\<close>.\<close>

definition whatIfResponse :: "string \<Rightarrow> jsnum \<Rightarrow> string \<Rightarrow> jsnum \<Rightarrow> WhatIfResult" where
  "whatIfResponse baselinePrediction baselineProbability modifiedPrediction modifiedProbability =
     \<lparr>original_prediction = baselinePrediction,
      original_probability = baselineProbability,
      modified_prediction = modifiedPrediction,
      modified_probability = modifiedProbability,
      probability_change = probabilityDelta baselineProbability modifiedProbability\<rparr>"

section \<open>RiskAssessment.tsx\<close>

record RiskAssessmentData =
  riskFeature :: string
  riskValue :: jsnum
  status :: string
  risk_level :: string
  normal_range :: string

definition getRiskColor :: "string \<Rightarrow> string" where
  "getRiskColor riskLevel =
     (if riskLevel = ''High'' then ''destructive''
      else if riskLevel = ''Medium'' then ''default''
      else if riskLevel = ''Low'' then ''secondary''
      else ''outline'')"

definition highRiskCount :: "RiskAssessmentData list \<Rightarrow> int" where
  "highRiskCount data = int (length (filter (\<lambda>d. risk_level d = ''High'') data))"

definition mediumRiskCount :: "RiskAssessmentData list \<Rightarrow> int" where
  "mediumRiskCount data = int (length (filter (\<lambda>d. risk_level d = ''Medium'') data))"

text \<open>The number shown beside \<open>Low Risk\<close>:
  \<open>data.length - highRiskCount - mediumRiskCount\<close>.\<close>

definition lowRiskCount :: "RiskAssessmentData list \<Rightarrow> int" where
  "lowRiskCount data = int (length data) - highRiskCount data - mediumRiskCount data"

section \<open>Example values\<close>

text \<open>The input \<open>{Pregnancies: 2, Glucose: 130, BloodPressure: 70, BMI: 28.5, Age: 45}\<close>, a
  second input, and the page after the first has been typed into the untouched form.\<close>

definition inputA :: PredictionData where
  "inputA = \<lparr>Pregnancies = Some (Num 2), Glucose = Some (Num 130),
     BloodPressure = Some (Num 70), BMI = Some (Num (57 / 2)), Age = Some (Num 45)\<rparr>"

definition inputB :: PredictionData where
  "inputB = \<lparr>Pregnancies = Some (Num 0), Glucose = Some (Num 95),
     BloodPressure = Some (Num 64), BMI = Some (Num 22), Age = Some (Num 30)\<rparr>"

definition typed :: "string \<Rightarrow> jsnum \<Rightarrow> App \<Rightarrow> App" where
  "typed field parsed s = s\<lparr>form := handleInputChange field parsed (form s)\<rparr>"

definition filledA :: App where
  "filledA =
     typed ''Age'' (Num 45) (typed ''BMI'' (Num (57 / 2)) (typed ''BloodPressure'' (Num 70)
       (typed ''Glucose'' (Num 130) (typed ''Pregnancies'' (Num 2) initialApp))))"

definition resultA :: PredictionResult where
  "resultA = \<lparr>prediction = ''Diabetic'', probability = Num (67 / 100), risk_score = Num 67,
     confidence_level = ''High''\<rparr>"

text \<open>The input the Index page holds together with the result the form shows.\<close>

definition committedPair :: "App \<Rightarrow> PredictionData option \<times> PredictionResult option" where
  "committedPair s = (currentPrediction (index s), result (form s))"

definition detailedA :: DetailedPrediction where
  "detailedA = \<lparr>detailedPrediction = ''Diabetic'', detailedProbability = Num (67 / 100),
     detailedRiskScore = Num 67, detailedConfidence = ''High'', feature_contributions = [],
     risk_factors = [], recommendations = [], generated = ''t1''\<rparr>"

definition detailedB :: DetailedPrediction where
  "detailedB = \<lparr>detailedPrediction = ''Non-Diabetic'', detailedProbability = Num (1 / 10),
     detailedRiskScore = Num 10, detailedConfidence = ''High'', feature_contributions = [],
     risk_factors = [], recommendations = [], generated = ''t2''\<rparr>"

text \<open>The analysis view after inputA and then inputB were committed and the answer for
  inputB has arrived; the request for inputA is still unanswered.\<close>

definition showingB :: Session where
  "showingB = run initialSession
     [PredictionComplete inputA, Effect, PredictionComplete inputB, Effect,
      Response inputB (Json detailedB)]"

text \<open>The page of text fields, untouched and filled in, and what \<open>parseInt\<close> and
  \<open>parseFloat\<close> return on the five texts typed.\<close>

definition filledText :: TextPage where
  "filledText = \<lparr>textData = \<lparr>PregnanciesText = ''2'', GlucoseText = ''130'',
      BloodPressureText = ''70'', BMIText = ''28.5'', AgeText = ''45''\<rparr>,
     textLoading = False, diabetic = None, textError = [], textToasts = [], textRequests = []\<rparr>"

definition parsedText :: "string \<Rightarrow> jsnum" where
  "parsedText t =
     (if t = ''2'' then Num 2 else if t = ''130'' then Num 130 else if t = ''70'' then Num 70
      else if t = ''28.5'' then Num (57 / 2) else if t = ''45'' then Num 45 else NaN)"

definition emptyText :: TextPage where
  "emptyText = \<lparr>textData = absentText,
     textLoading = False, diabetic = None, textError = [], textToasts = [], textRequests = []\<rparr>"

text \<open>A history entry with a given probability, two histories whose list of entries is
  empty, and a risk assessment.\<close>

definition logOf :: "jsnum \<Rightarrow> PredictionLog" where
  "logOf p = \<lparr>logTimestamp = ''t'', logInput = inputA, logPrediction = ''Diabetic'',
     logProbability = p\<rparr>"

definition countedButEmpty :: HistoryData where
  "countedButEmpty = \<lparr>total_predictions = Num 1, recent_predictions = [],
     historyTimestamp = ''t''\<rparr>"

definition nothingCounted :: HistoryData where
  "nothingCounted = \<lparr>total_predictions = Num 0, recent_predictions = [],
     historyTimestamp = ''t''\<rparr>"

definition highGlucose :: RiskAssessmentData where
  "highGlucose = \<lparr>riskFeature = ''Glucose'', riskValue = Num 250, status = ''Very high'',
     risk_level = ''High'', normal_range = ''70-100''\<rparr>"

section \<open>The form holds finite numbers\<close>








lemma validate_zeroData: "validateForm zeroData = Some ''BMI must be between 10 and 70''"
  by (simp add: validateForm_def zeroData_def truthy_def lt_def gt_def to_number_def)




section \<open>The all-fields-required check\<close>

lemma validateForm_absent:
  "Pregnancies d = None \<Longrightarrow> validateForm d = Some ''All fields are required''"
  by (simp add: validateForm_def truthy_def)

lemma validateTextForm_absent:
  "PregnanciesText t = [] \<or> GlucoseText t = [] \<or> BloodPressureText t = [] \<or>
     BMIText t = [] \<or> AgeText t = [] \<Longrightarrow>
   validateTextForm parseInt parseFloat t = Some ''All fields are required''"
  by (simp add: validateTextForm_def)

lemma required_names_nothing:
  "list_all (\<lambda>f. \<not> mentions ''All fields are required'' (featureName f)) features"
  by (simp add: features_def mentions_def)

text \<open>
  C6, as amended. A candidate with all five fields absent fails with the one message
  \<open>All fields are required\<close>, which names none of the five fields. The check comes
  first: an absent Pregnancies (in the form of text fields, any empty field) gives that
  message whatever the other fields hold, out-of-range values included.
\<close>

theorem missing_check_runs_first:
  "(Pregnancies d = None \<longrightarrow> validateForm d = Some ''All fields are required'')
   \<and> (PregnanciesText t = [] \<or> GlucoseText t = [] \<or> BloodPressureText t = [] \<or>
        BMIText t = [] \<or> AgeText t = [] \<longrightarrow>
      validateTextForm parseInt parseFloat t = Some ''All fields are required'')
   \<and> validateForm absentData = Some ''All fields are required''
   \<and> validateTextForm parseInt parseFloat absentText = Some ''All fields are required''
   \<and> list_all (\<lambda>f. \<not> mentions ''All fields are required'' (featureName f)) features"
proof -
  have "validateForm absentData = Some ''All fields are required''"
    by (rule validateForm_absent) (simp add: absentData_def)
  moreover have
    "validateTextForm parseInt parseFloat absentText = Some ''All fields are required''"
    by (rule validateTextForm_absent) (simp add: absentText_def)
  ultimately show ?thesis
    using validateForm_absent [of d] validateTextForm_absent [of t parseInt parseFloat]
      required_names_nothing
    by blast
qed

text \<open>The theorem at a candidate whose Glucose is far out of range, and at a text form
  whose Pregnancies is out of range and whose Age is empty.\<close>

theorem missing_check_runs_first_witness:
  "Pregnancies (absentData\<lparr>Glucose := Some (Num 999)\<rparr>) = None
   \<and> validateForm (absentData\<lparr>Glucose := Some (Num 999)\<rparr>) = Some ''All fields are required''
   \<and> AgeText \<lparr>PregnanciesText = ''99'', GlucoseText = ''130'', BloodPressureText = ''70'',
        BMIText = ''28.5'', AgeText = []\<rparr> = []
   \<and> (\<forall>parseInt parseFloat. validateTextForm parseInt parseFloat
        \<lparr>PregnanciesText = ''99'', GlucoseText = ''130'', BloodPressureText = ''70'',
         BMIText = ''28.5'', AgeText = []\<rparr> = Some ''All fields are required'')"
proof -
  have p: "Pregnancies (absentData\<lparr>Glucose := Some (Num 999)\<rparr>) = None"
    by (simp add: absentData_def)
  have a: "AgeText \<lparr>PregnanciesText = ''99'', GlucoseText = ''130'', BloodPressureText = ''70'',
        BMIText = ''28.5'', AgeText = []\<rparr> = []"
    by simp
  show ?thesis
    using p a
      missing_check_runs_first [of "absentData\<lparr>Glucose := Some (Num 999)\<rparr>"
        "\<lparr>PregnanciesText = ''99'', GlucoseText = ''130'', BloodPressureText = ''70'',
          BMIText = ''28.5'', AgeText = []\<rparr>"]
    by blast
qed

text \<open>C6 as stated fails: the message for the absent fields does not name Pregnancies,
  and it is the same message when Age is the only absent field.\<close>

theorem missing_error_names_no_field:
  "validateForm absentData = Some ''All fields are required''
   \<and> \<not> mentions ''All fields are required'' ''Pregnancies''
   \<and> (\<forall>parseInt parseFloat.
        validateTextForm parseInt parseFloat absentText = Some ''All fields are required''
        \<and> validateTextForm parseInt parseFloat
            \<lparr>PregnanciesText = ''2'', GlucoseText = ''130'', BloodPressureText = ''70'',
             BMIText = ''28.5'', AgeText = []\<rparr> = Some ''All fields are required'')"
  by (simp add: validateForm_def absentData_def truthy_def mentions_def validateTextForm_def
      absentText_def)

section \<open>Validation comes before the request\<close>

lemma handleSubmit_requests:
  "requests (handleSubmit r s) =
     (if validateForm (formData (form s)) = None
      then requests s @ [PostPredict (formData (form s))] else requests s)"
  by (simp add: handleSubmit_def Let_def split: option.splits fetched.splits)

lemma handleTextSubmit_invalid:
  "validateTextForm parseInt parseFloat (textData p) \<noteq> None \<Longrightarrow>
   textRequests (handleTextSubmit parseInt parseFloat b p) = textRequests p"
  by (auto simp: handleTextSubmit_def)

lemma handleTextSubmit_valid:
  "validateTextForm parseInt parseFloat (textData p) = None \<Longrightarrow>
   length (textRequests (handleTextSubmit parseInt parseFloat b p)) = Suc (length (textRequests p))"
  by (simp add: handleTextSubmit_def Let_def split: fetched.splits)

text \<open>
  C3. When \<open>validateForm\<close> fails, \<open>handleSubmit\<close> returns before its \<open>fetch\<close>: the
  requests sent are what they were. A request is sent only when validation passed, and
  then it is the one \<open>POST /predict\<close> of the form's data. The same holds for the page of
  text fields.
\<close>

theorem failed_validation_sends_nothing:
  "(validateForm (formData (form s)) \<noteq> None \<longrightarrow> requests (handleSubmit r s) = requests s)
   \<and> (requests (handleSubmit r s) \<noteq> requests s \<longrightarrow>
        validateForm (formData (form s)) = None
        \<and> requests (handleSubmit r s) = requests s @ [PostPredict (formData (form s))])
   \<and> (validateTextForm parseInt parseFloat (textData p) \<noteq> None \<longrightarrow>
        textRequests (handleTextSubmit parseInt parseFloat b p) = textRequests p)
   \<and> (textRequests (handleTextSubmit parseInt parseFloat b p) \<noteq> textRequests p \<longrightarrow>
        validateTextForm parseInt parseFloat (textData p) = None)"
proof (intro conjI impI)
  assume "validateForm (formData (form s)) \<noteq> None"
  then show "requests (handleSubmit r s) = requests s"
    by (simp add: handleSubmit_requests)
next
  assume sent: "requests (handleSubmit r s) \<noteq> requests s"
  then show "validateForm (formData (form s)) = None"
    by (simp add: handleSubmit_requests split: if_splits)
  with sent show "requests (handleSubmit r s) = requests s @ [PostPredict (formData (form s))]"
    by (simp add: handleSubmit_requests)
next
  assume "validateTextForm parseInt parseFloat (textData p) \<noteq> None"
  then show "textRequests (handleTextSubmit parseInt parseFloat b p) = textRequests p"
    by (rule handleTextSubmit_invalid)
next
  assume "textRequests (handleTextSubmit parseInt parseFloat b p) \<noteq> textRequests p"
  then show "validateTextForm parseInt parseFloat (textData p) = None"
    using handleTextSubmit_invalid [of parseInt parseFloat p b] by blast
qed

lemma validate_inputA: "validateForm inputA = None"
  by (simp add: validateForm_def inputA_def truthy_def lt_def gt_def to_number_def)

lemma filledA_form: "form filledA = initialForm\<lparr>formData := inputA\<rparr>"
  by (simp add: filledA_def typed_def handleInputChange_def set_field_def or_zero_def
      truthy_def initialApp_def initialForm_def zeroData_def inputA_def)

lemma filledA_rest: "index filledA = initialIndex \<and> requests filledA = [] \<and> toasts filledA = []"
  by (simp add: filledA_def typed_def initialApp_def)

lemma reachable_filledA: "reachable filledA"
  unfolding filledA_def typed_def
  by (intro reachable.change reachable.initial) (simp_all add: number_input_def)


text \<open>The theorem at the untouched form (BMI 0 fails the range check), at the form
  filled with inputA, and at the page of text fields, untouched and filled in.\<close>

theorem failed_validation_sends_nothing_witness:
  "validateForm (formData (form initialApp)) \<noteq> None
   \<and> requests (handleSubmit NotOk initialApp) = requests initialApp
   \<and> requests (handleSubmit NotOk filledA) \<noteq> requests filledA
   \<and> validateForm (formData (form filledA)) = None
   \<and> requests (handleSubmit NotOk filledA) = [PostPredict inputA]
   \<and> validateTextForm parsedText parsedText (textData emptyText) \<noteq> None
   \<and> textRequests (handleTextSubmit parsedText parsedText NotOk emptyText)
       = textRequests emptyText
   \<and> textRequests (handleTextSubmit parsedText parsedText NotOk filledText)
       \<noteq> textRequests filledText
   \<and> validateTextForm parsedText parsedText (textData filledText) = None"
proof -
  have v0: "validateForm (formData (form initialApp)) \<noteq> None"
    by (simp add: initialApp_def initialForm_def validate_zeroData)
  have vA: "validateForm (formData (form filledA)) = None"
    by (simp add: filledA_form validate_inputA)
  have sent: "requests (handleSubmit NotOk filledA) \<noteq> requests filledA"
    by (simp add: handleSubmit_requests vA)
  have vE: "validateTextForm parsedText parsedText (textData emptyText) \<noteq> None"
    by (simp add: emptyText_def absentText_def validateTextForm_def)
  have vT: "validateTextForm parsedText parsedText (textData filledText) = None"
    by (simp add: filledText_def validateTextForm_def parsedText_def)
  have sentT: "textRequests (handleTextSubmit parsedText parsedText NotOk filledText)
       \<noteq> textRequests filledText"
    using handleTextSubmit_valid [OF vT, of NotOk] by auto
  show ?thesis
    using v0 vA sent vE vT sentT
      failed_validation_sends_nothing [of initialApp NotOk parsedText parsedText emptyText NotOk]
      failed_validation_sends_nothing [of filledA NotOk parsedText parsedText filledText NotOk]
    by (simp add: filledA_form filledA_rest)
qed

section \<open>What a submit commits\<close>

lemma handleSubmit_Json:
  assumes "validateForm (formData (form s)) = None"
  shows "index (handleSubmit (Json res) s) = handlePredictionComplete (formData (form s)) (index s)"
    and "result (form (handleSubmit (Json res) s)) = Some res"
    and "error (form (handleSubmit (Json res) s)) = []"
  using assms by (simp_all add: handleSubmit_def Let_def)

lemma handleSubmit_failure:
  assumes "validateForm (formData (form s)) = None" and "\<forall>res. r \<noteq> Json res"
  shows "index (handleSubmit r s) = index s"
    and "result (form (handleSubmit r s)) = None"
    and "error (form (handleSubmit r s)) =
           caught ''Failed to get prediction'' ''Failed to connect to API'' r"
    and "toasts (handleSubmit r s) = toasts s @
           [\<lparr>title = ''Error'',
             description = caught ''Failed to get prediction'' ''Failed to connect to API'' r,
             destructive = True\<rparr>]"
  using assms by (cases r; simp add: handleSubmit_def Let_def)+

lemma handleSubmit_invalid:
  assumes "validateForm (formData (form s)) \<noteq> None"
  shows "index (handleSubmit r s) = index s"
    and "result (form (handleSubmit r s)) = result (form s)"
  using assms by (auto simp: handleSubmit_def)

text \<open>
  C2, as amended. A submit whose validation passes and whose request succeeds stores the
  form's data as the Index page's current prediction, adds exactly one to
  \<open>refreshTrigger\<close> and shows the result in the form. When the request fails (it is
  rejected, or the response is not ok) the Index page's current prediction and
  \<open>refreshTrigger\<close> stay as they were, the error message is set and shown in a toast, and
  the result the form showed is cleared. A submit that fails validation changes neither.
  Two successful submits in a row, the form edited in between, leave \<open>refreshTrigger\<close>
  one above its value after the first.
\<close>

theorem commit_outcomes:
  "(validateForm (formData (form s)) = None \<longrightarrow>
      currentPrediction (index (handleSubmit (Json res) s)) = Some (formData (form s))
      \<and> refreshTrigger (index (handleSubmit (Json res) s)) = refreshTrigger (index s) + 1
      \<and> result (form (handleSubmit (Json res) s)) = Some res)
   \<and> (validateForm (formData (form s)) = None \<and> (\<forall>res. r \<noteq> Json res) \<longrightarrow>
      index (handleSubmit r s) = index s
      \<and> result (form (handleSubmit r s)) = None
      \<and> error (form (handleSubmit r s)) =
          caught ''Failed to get prediction'' ''Failed to connect to API'' r
      \<and> toasts (handleSubmit r s) = toasts s @
          [\<lparr>title = ''Error'',
            description = caught ''Failed to get prediction'' ''Failed to connect to API'' r,
            destructive = True\<rparr>])
   \<and> (validateForm (formData (form s)) \<noteq> None \<longrightarrow>
      index (handleSubmit r s) = index s \<and> result (form (handleSubmit r s)) = result (form s))
   \<and> (validateForm (formData (form s)) = None \<and> validateForm (formData f) = None \<longrightarrow>
      refreshTrigger (index (handleSubmit (Json res') ((handleSubmit (Json res) s)\<lparr>form := f\<rparr>)))
        = refreshTrigger (index (handleSubmit (Json res) s)) + 1)"
proof (intro conjI impI)
  assume v: "validateForm (formData (form s)) = None"
  show "currentPrediction (index (handleSubmit (Json res) s)) = Some (formData (form s))"
    by (simp add: handleSubmit_Json(1) [OF v] handlePredictionComplete_def)
  show "refreshTrigger (index (handleSubmit (Json res) s)) = refreshTrigger (index s) + 1"
    by (simp add: handleSubmit_Json(1) [OF v] handlePredictionComplete_def)
  show "result (form (handleSubmit (Json res) s)) = Some res"
    by (rule handleSubmit_Json(2) [OF v])
next
  assume f: "validateForm (formData (form s)) = None \<and> (\<forall>res. r \<noteq> Json res)"
  then have v: "validateForm (formData (form s)) = None" and n: "\<forall>res. r \<noteq> Json res"
    by simp_all
  show "index (handleSubmit r s) = index s"
    by (rule handleSubmit_failure(1) [OF v n])
  show "result (form (handleSubmit r s)) = None"
    by (rule handleSubmit_failure(2) [OF v n])
  show "error (form (handleSubmit r s)) =
          caught ''Failed to get prediction'' ''Failed to connect to API'' r"
    by (rule handleSubmit_failure(3) [OF v n])
  show "toasts (handleSubmit r s) = toasts s @
          [\<lparr>title = ''Error'',
            description = caught ''Failed to get prediction'' ''Failed to connect to API'' r,
            destructive = True\<rparr>]"
    by (rule handleSubmit_failure(4) [OF v n])
next
  assume i: "validateForm (formData (form s)) \<noteq> None"
  show "index (handleSubmit r s) = index s"
    by (rule handleSubmit_invalid(1) [OF i])
  show "result (form (handleSubmit r s)) = result (form s)"
    by (rule handleSubmit_invalid(2) [OF i])
next
  assume "validateForm (formData (form s)) = None \<and> validateForm (formData f) = None"
  then have "validateForm (formData (form ((handleSubmit (Json res) s)\<lparr>form := f\<rparr>))) = None"
    by simp
  from handleSubmit_Json(1) [OF this]
  show "refreshTrigger (index (handleSubmit (Json res') ((handleSubmit (Json res) s)\<lparr>form := f\<rparr>)))
        = refreshTrigger (index (handleSubmit (Json res) s)) + 1"
    by (simp add: handlePredictionComplete_def)
qed

lemma committedA:
  "handleSubmit (Json resultA) filledA =
     \<lparr>form = \<lparr>formData = inputA, loading = False, result = Some resultA, error = []\<rparr>,
      index = \<lparr>currentPrediction = Some inputA, refreshTrigger = 1\<rparr>,
      toasts = [\<lparr>title = ''Prediction Complete'',
                 description = ''Risk detected. Please consult a healthcare professional.'',
                 destructive = False\<rparr>],
      requests = [PostPredict inputA]\<rparr>"
proof -
  have e: "filledA = \<lparr>form = initialForm\<lparr>formData := inputA\<rparr>, index = initialIndex,
      toasts = [], requests = []\<rparr>"
    using filledA_form filledA_rest by (cases filledA) simp
  show ?thesis
    unfolding e
    by (simp add: handleSubmit_def validate_inputA Let_def initialForm_def initialIndex_def
        handlePredictionComplete_def resultA_def)
qed

text \<open>C2 as stated fails: after inputA was committed with its result, a submit whose
  request fails leaves the current prediction but clears the result, so the pair of the
  two is not what it was.\<close>

theorem failed_commit_clears_result:
  "reachable (handleSubmit (Json resultA) filledA)
   \<and> committedPair (handleSubmit (Json resultA) filledA) = (Some inputA, Some resultA)
   \<and> refreshTrigger (index (handleSubmit (Json resultA) filledA)) = 1
   \<and> committedPair (handleSubmit NotOk (handleSubmit (Json resultA) filledA))
       = (Some inputA, None)
   \<and> committedPair (handleSubmit NotOk (handleSubmit (Json resultA) filledA))
       \<noteq> committedPair (handleSubmit (Json resultA) filledA)"
proof -
  have "reachable (handleSubmit (Json resultA) filledA)"
    by (rule reachable.submit) (rule reachable_filledA)
  moreover have "committedPair (handleSubmit NotOk (handleSubmit (Json resultA) filledA))
       = (Some inputA, None)"
    unfolding committedA
    by (simp add: committedPair_def handleSubmit_def validate_inputA Let_def)
  ultimately show ?thesis
    by (simp add: committedA committedPair_def)
qed

text \<open>The theorem at the form filled with inputA (a success, then a failure), at the
  untouched form (validation fails), and at a second success with inputB.\<close>

theorem commit_outcomes_witness:
  "validateForm (formData (form filledA)) = None
   \<and> currentPrediction (index (handleSubmit (Json resultA) filledA)) = Some inputA
   \<and> refreshTrigger (index (handleSubmit (Json resultA) filledA)) = 1
   \<and> result (form (handleSubmit (Json resultA) filledA)) = Some resultA
   \<and> (\<forall>res. (NotOk :: PredictionResult fetched) \<noteq> Json res)
   \<and> index (handleSubmit NotOk filledA) = index filledA
   \<and> error (form (handleSubmit NotOk filledA)) = ''Failed to get prediction''
   \<and> validateForm (formData (form initialApp)) \<noteq> None
   \<and> index (handleSubmit (Json resultA) initialApp) = index initialApp
   \<and> validateForm (formData (initialForm\<lparr>formData := inputB\<rparr>)) = None
   \<and> refreshTrigger (index (handleSubmit (Json resultA)
        ((handleSubmit (Json resultA) filledA)\<lparr>form := initialForm\<lparr>formData := inputB\<rparr>\<rparr>))) = 2"
proof -
  have vA: "validateForm (formData (form filledA)) = None"
    by (simp add: filledA_form validate_inputA)
  have vB: "validateForm (formData (initialForm\<lparr>formData := inputB\<rparr>)) = None"
    by (simp add: validateForm_def inputB_def truthy_def lt_def gt_def to_number_def)
  have v0: "validateForm (formData (form initialApp)) \<noteq> None"
    by (simp add: initialApp_def initialForm_def validate_zeroData)
  have n: "\<forall>res. (NotOk :: PredictionResult fetched) \<noteq> Json res"
    by simp
  show ?thesis
    using vA vB v0 n
      commit_outcomes [of filledA resultA NotOk "initialForm\<lparr>formData := inputB\<rparr>" resultA]
      commit_outcomes [of initialApp resultA "Json resultA" "initialForm\<lparr>formData := inputB\<rparr>" resultA]
    by (simp add: filledA_form filledA_rest caught_def initialIndex_def)
qed

section \<open>Late answers in the analysis view\<close>

lemma showingB_eq:
  "showingB = \<lparr>page = \<lparr>currentPrediction = Some inputB, refreshTrigger = 2\<rparr>,
     analysis = \<lparr>analysisLoading = False, analysisData = Some detailedB, analysisError = []\<rparr>,
     pending = [inputA]\<rparr>"
  by (simp add: showingB_def run_def initialSession_def initialIndex_def initialAnalysis_def
      handlePredictionComplete_def fetchDetailedPrediction_start_def
      fetchDetailedPrediction_resume_def inputA_def inputB_def)

lemma inputA_not_B: "inputA \<noteq> inputB"
  by (simp add: inputA_def inputB_def)

text \<open>C1 as stated fails: with inputB committed and its analysis shown, the late answer
  to the request sent for inputA replaces the analysis; the page's current prediction is
  still inputB.\<close>

theorem stale_response_overwrites:
  "currentPrediction (page showingB) = Some inputB
   \<and> analysisData (analysis showingB) = Some detailedB
   \<and> analysisData (analysis (step showingB (Response inputA (Json detailedA)))) = Some detailedA
   \<and> analysis (step showingB (Response inputA (Json detailedA))) \<noteq> analysis showingB
   \<and> currentPrediction (page (step showingB (Response inputA (Json detailedA)))) = Some inputB"
  unfolding showingB_eq
  by (simp add: fetchDetailedPrediction_resume_def detailedA_def detailedB_def)

text \<open>
  C1, as amended. The view's requests carry no revision and nothing is checked when an
  answer arrives: the answer to a request sent for an input that is no longer the
  current prediction is written into the view like any other (the data becomes that
  answer and the spinner is switched off), and the Index page is left as it is.
\<close>

theorem every_response_is_installed:
  assumes "d \<in> set (pending s)" and "currentPrediction (page s) \<noteq> Some d"
  shows "analysisData (analysis (step s (Response d (Json res)))) = Some res
    \<and> \<not> analysisLoading (analysis (step s (Response d (Json res))))
    \<and> page (step s (Response d (Json res))) = page s"
  using assms by (simp add: fetchDetailedPrediction_resume_def)

text \<open>The theorem at the late answer for inputA.\<close>

theorem every_response_is_installed_witness:
  "inputA \<in> set (pending showingB)
   \<and> currentPrediction (page showingB) \<noteq> Some inputA
   \<and> analysisData (analysis (step showingB (Response inputA (Json detailedA)))) = Some detailedA
   \<and> \<not> analysisLoading (analysis (step showingB (Response inputA (Json detailedA))))"
proof -
  have m: "inputA \<in> set (pending showingB)"
    by (simp add: showingB_eq)
  have c: "currentPrediction (page showingB) \<noteq> Some inputA"
    using inputA_not_B by (simp add: showingB_eq)
  from every_response_is_installed [OF m c, of detailedA] m c show ?thesis
    by simp
qed

section \<open>The what-if view\<close>

text \<open>
  C4, as amended. The what-if view builds no modified input and checks no range. With an
  empty value it shows the toast \<open>Please enter a value\<close> and sends nothing. With any
  other value it sends one what-if request whose body is the baseline input unchanged,
  the selected feature and the value as typed going in the query string.
\<close>

theorem what_if_sends_the_baseline:
  "(newValue s = [] \<longrightarrow>
      handleAnalyze initialData r s =
        s\<lparr>whatIfToasts := whatIfToasts s @
            [\<lparr>title = ''Error'', description = ''Please enter a value'',
              destructive = True\<rparr>]\<rparr>)
   \<and> (newValue s \<noteq> [] \<longrightarrow>
      whatIfRequests (handleAnalyze initialData r s) =
        whatIfRequests s @ [PostWhatIf (selectedFeature s) (newValue s) initialData])"
  by (simp add: handleAnalyze_def Let_def split: fetched.splits)

text \<open>The theorem at the untouched view and at the view with 150 typed for Glucose.\<close>

theorem what_if_sends_the_baseline_witness:
  "newValue initialWhatIf = []
   \<and> whatIfRequests (handleAnalyze inputA NotOk initialWhatIf) = []
   \<and> whatIfToasts (handleAnalyze inputA NotOk initialWhatIf) =
       [\<lparr>title = ''Error'', description = ''Please enter a value'', destructive = True\<rparr>]
   \<and> newValue (initialWhatIf\<lparr>newValue := ''150''\<rparr>) \<noteq> []
   \<and> whatIfRequests (handleAnalyze inputA NotOk (initialWhatIf\<lparr>newValue := ''150''\<rparr>)) =
       [PostWhatIf ''Glucose'' ''150'' inputA]"
  using what_if_sends_the_baseline [of initialWhatIf inputA NotOk]
    what_if_sends_the_baseline [of "initialWhatIf\<lparr>newValue := ''150''\<rparr>" inputA NotOk]
  by (simp add: initialWhatIf_def)

text \<open>C4 as stated fails: 999 is outside the range of Glucose (the form's validator
  rejects the input with Glucose 999), yet the what-if request is sent, with the
  baseline as its body.\<close>

theorem out_of_range_override_is_sent:
  "selectedFeatureInfo ''Glucose''
     = Some \<lparr>featureName = ''Glucose'', featureMin = 0, featureMax = 300, featureStep = 1\<rparr>
   \<and> validateForm (inputA\<lparr>Glucose := Some (Num 999)\<rparr>)
       = Some ''Glucose must be between 0 and 300 mg/dL''
   \<and> (\<forall>r. whatIfRequests (handleAnalyze inputA r (initialWhatIf\<lparr>newValue := ''999''\<rparr>))
       = [PostWhatIf ''Glucose'' ''999'' inputA])"
  by (simp add: selectedFeatureInfo_def features_def validateForm_def inputA_def truthy_def
      lt_def gt_def to_number_def handleAnalyze_def Let_def initialWhatIf_def
      split: fetched.splits)

text \<open>
  C5. The view calls a scenario an improvement exactly when the \<open>probability_change\<close> it
  received is below zero, and its sentence follows that test. With the change the
  service computes, the modified probability minus the baseline one, a scenario is an
  improvement exactly when the modified probability is the lower one: 0.30 to 0.22 gives
  -0.08, an improvement; 0.30 to 0.41 gives +0.11, none; no change is none.
\<close>

theorem improvement_iff_negative_change:
  "isImprovement (Some w) = js_lt (probability_change w) (Num 0)
   \<and> sentence (changeAlert (Some w))
       = (if js_lt (probability_change w) (Num 0)
          then ''Lowering this metric improves your risk profile''
          else ''This change increases diabetes risk'')
   \<and> probability_change (whatIfResponse p (Num a) p' (Num b)) = Num (b - a)
   \<and> isImprovement (Some (whatIfResponse p (Num a) p' (Num b))) = (b < a)
   \<and> probabilityDelta (Num (30 / 100)) (Num (22 / 100)) = Num (- (8 / 100))
   \<and> isImprovement (Some (whatIfResponse p (Num (30 / 100)) p' (Num (22 / 100))))
   \<and> probabilityDelta (Num (30 / 100)) (Num (41 / 100)) = Num (11 / 100)
   \<and> \<not> isImprovement (Some (whatIfResponse p (Num (30 / 100)) p' (Num (41 / 100))))
   \<and> \<not> isImprovement (Some (whatIfResponse p (Num a) p' (Num a)))"
  by (simp add: isImprovement_def changeAlert_def whatIfResponse_def probabilityDelta_def)

section \<open>The history cards and the trend chart\<close>

lemma floor_numeral_quotient:
  "\<lfloor>(numeral a :: rat) / numeral b\<rfloor> = numeral a div numeral b"
  by (metis floor_divide_of_int_eq of_int_numeral)

text \<open>\<open>nearest\<close> is within half a unit of the last fraction digit.\<close>

lemma nearest_close:
  assumes "0 \<le> a"
  shows "\<bar>of_nat (nearest f a) / 10 ^ f - a\<bar> \<le> 1 / (2 * 10 ^ f)"
proof -
  define d :: rat where "d = 10 ^ f"
  define z where "z = \<lfloor>a * d + 1 / 2\<rfloor>"
  have p: "0 < d" by (simp add: d_def)
  have "0 \<le> a * d" using assms p by simp
  then have "0 \<le> z" by (simp add: z_def)
  then have n: "(of_nat (nearest f a) :: rat) = of_int z"
    by (simp add: nearest_def z_def d_def)
  have lo: "of_int z \<le> a * d + 1 / 2" unfolding z_def by (rule of_int_floor_le)
  have hi: "a * d + 1 / 2 < of_int z + 1" unfolding z_def by linarith
  have h: "\<bar>of_int z - a * d\<bar> \<le> 1 / 2"
    using lo hi by linarith
  have "\<bar>of_int z - a * d\<bar> / d \<le> (1 / 2) / d"
    by (rule divide_right_mono [OF h]) (use p in simp)
  moreover have "\<bar>of_int z - a * d\<bar> / d = \<bar>of_int z / d - a\<bar>"
  proof -
    have "of_int z / d - a = (of_int z - a * d) / d"
      using p by (simp add: diff_divide_distrib)
    then show ?thesis using p by (simp add: abs_divide)
  qed
  moreover have "(1 / 2) / d = 1 / (2 * d)" by simp
  ultimately have "\<bar>of_int z / d - a\<bar> \<le> 1 / (2 * d)" by simp
  then show ?thesis by (simp add: n d_def)
qed

lemma chartData_length: "length (chartData f logs) = length logs"
  by (simp add: chartData_def)

lemma chartData_nth:
  assumes "i < length logs"
  shows "chartData f logs ! i =
     \<lparr>chartName = ''#'' @ string_of_nat (length logs - i),
      chartProbability = toFixed 2 (times100 (logProbability (logs ! (length logs - 1 - i)))),
      chartTimestamp = f (logTimestamp (logs ! (length logs - 1 - i)))\<rparr>"
proof -
  let ?j = "length logs - Suc i"
  have j: "?j < length logs" using assms by simp
  have "chartData f logs ! i =
      (map (\<lambda>(index, log).
            \<lparr>chartName = ''#'' @ string_of_nat (index + 1),
             chartProbability = toFixed 2 (times100 (logProbability log)),
             chartTimestamp = f (logTimestamp log)\<rparr>)
          (enumerate 0 logs)) ! ?j"
    using assms by (simp add: chartData_def rev_nth)
  also have "\<dots> = \<lparr>chartName = ''#'' @ string_of_nat (?j + 1),
             chartProbability = toFixed 2 (times100 (logProbability (logs ! ?j))),
             chartTimestamp = f (logTimestamp (logs ! ?j))\<rparr>"
    using j by (simp add: nth_enumerate_eq)
  also have "?j + 1 = length logs - i" using assms by simp
  finally show ?thesis by simp
qed


text \<open>The arithmetic is the code's: 0.00075 times 100 is a number below 0.075 and is
  shown as 0.07; the probabilities 0.01, 0.63, 0.67 and 0.70 add up and average to a
  number below 50.25, shown as 50.2.\<close>

lemma product_is_rounded: "toFixed 2 (times100 (round64 (75 / 100000))) = Str ''0.07''"
  by code_simp

lemma sum_is_rounded:
  "avgRiskScore [logOf (round64 (1 / 100)), logOf (round64 (63 / 100)),
     logOf (round64 (67 / 100)), logOf (round64 (70 / 100))] = Str ''50.2''"
  by code_simp

lemma average_of_two: "avgRiskScore [logOf (Num (2 / 10)), logOf (Num (8 / 10))] = Str ''50.0''"
  by code_simp

lemma product_80: "round64 80 = Num 80"
  by code_simp

lemma product_20: "round64 20 = Num 20"
  by code_simp

lemma shown_80: "toFixed 2 (Num 80) = Str ''80.00''"
  by (simp add: toFixed_def decimal_def nearest_def Let_def string_of_nat.simps
      floor_numeral_quotient)

lemma shown_20: "toFixed 2 (Num 20) = Str ''20.00''"
  by (simp add: toFixed_def decimal_def nearest_def Let_def string_of_nat.simps
      floor_numeral_quotient)

lemma chart_of_two:
  "chartData (\<lambda>t. t) [logOf (Num (2 / 10)), logOf (Num (8 / 10))] =
     [\<lparr>chartName = ''#2'', chartProbability = Str ''80.00'', chartTimestamp = ''t''\<rparr>,
      \<lparr>chartName = ''#1'', chartProbability = Str ''20.00'', chartTimestamp = ''t''\<rparr>]"
  by (simp add: chartData_def logOf_def product_80 product_20 shown_80 shown_20
      string_of_nat.simps)

text \<open>
  C7, at the input where the code leaves the claim. The test before the cards looks at
  \<open>total_predictions\<close>, not at the list the mean divides by: for a history that counts
  one prediction and lists none, the cards are rendered and the average is \<open>0 / 0\<close>
  times 100, shown as \<open>NaN\<close>. With a count of zero the empty state is rendered instead,
  and for the probabilities 0.2 and 0.8 the card shows \<open>50.0\<close>.
\<close>

theorem average_of_no_logs_is_NaN:
  "PredictionHistory f False [] (Some countedButEmpty)
     = Cards \<lparr>totalCard = Num 1, latestCard = None, avgCard = Str ''NaN'', chart = []\<rparr>
   \<and> PredictionHistory f False [] (Some nothingCounted) = NoHistoryYet
   \<and> avgRiskScore [] = Str ''NaN''
   \<and> avgRiskScore [logOf (Num (2 / 10)), logOf (Num (8 / 10))] = Str ''50.0''"
proof -
  have nan: "avgRiskScore [] = Str ''NaN''"
    by (simp add: avgRiskScore_def toFixed_def)
  have "PredictionHistory f False [] (Some countedButEmpty)
     = Cards \<lparr>totalCard = Num 1, latestCard = None, avgCard = Str ''NaN'', chart = []\<rparr>"
    by (simp add: PredictionHistory_def noHistory_def countedButEmpty_def nan chartData_def)
  moreover have "PredictionHistory f False [] (Some nothingCounted) = NoHistoryYet"
    by (simp add: PredictionHistory_def noHistory_def nothingCounted_def)
  ultimately show ?thesis
    using nan average_of_two by simp
qed

text \<open>
  C8, as amended. \<open>chartData\<close> has one point per entry, in the reverse of the entries'
  order: point \<open>i\<close> comes from entry \<open>n - 1 - i\<close> of \<open>n\<close>, is named after that entry's
  position counted from 1, and carries the entry's probability times 100, the product
  as binary64 has it, as \<open>toFixed(2)\<close> prints it. When that product is a finite number
  \<open>y\<close> that is not negative, the point shows the decimal of the integer number of
  hundredths nearest to \<open>y\<close>, within half a hundredth of it.
\<close>

theorem chart_points_in_reverse:
  assumes "i < length logs"
  shows "length (chartData f logs) = length logs
    \<and> chartData f logs ! i =
        \<lparr>chartName = ''#'' @ string_of_nat (length logs - i),
         chartProbability = toFixed 2 (times100 (logProbability (logs ! (length logs - 1 - i)))),
         chartTimestamp = f (logTimestamp (logs ! (length logs - 1 - i)))\<rparr>
    \<and> (times100 (logProbability (logs ! (length logs - 1 - i))) = Num y \<and> 0 \<le> y
         \<and> y < 10 ^ 21 \<longrightarrow>
        chartProbability (chartData f logs ! i) = Str (decimal 2 (nearest 2 y))
        \<and> \<bar>of_nat (nearest 2 y) / 10 ^ 2 - y\<bar> \<le> 1 / (2 * 10 ^ 2))"
proof (intro conjI impI)
  show "length (chartData f logs) = length logs" by (rule chartData_length)
  show "chartData f logs ! i =
        \<lparr>chartName = ''#'' @ string_of_nat (length logs - i),
         chartProbability = toFixed 2 (times100 (logProbability (logs ! (length logs - 1 - i)))),
         chartTimestamp = f (logTimestamp (logs ! (length logs - 1 - i)))\<rparr>"
    using assms by (rule chartData_nth)
next
  assume h: "times100 (logProbability (logs ! (length logs - 1 - i))) = Num y \<and> 0 \<le> y
    \<and> y < 10 ^ 21"
  then have "0 \<le> y" by simp
  then show "\<bar>of_nat (nearest 2 y) / 10 ^ 2 - y\<bar> \<le> 1 / (2 * 10 ^ 2)"
    by (rule nearest_close)
  have "\<not> y < 0" "\<not> 10 ^ 21 \<le> \<bar>y\<bar>" "\<bar>y\<bar> = y"
    using h by auto
  then show "chartProbability (chartData f logs ! i) = Str (decimal 2 (nearest 2 y))"
    using h by (simp add: chartData_nth [OF assms] toFixed_def Let_def)
qed

text \<open>The theorem at the first point of the chart of two entries.\<close>

theorem chart_points_in_reverse_witness:
  "(0::nat) < length [logOf (Num (2 / 10)), logOf (Num (8 / 10))]
   \<and> length (chartData (\<lambda>t. t) [logOf (Num (2 / 10)), logOf (Num (8 / 10))]) = 2
   \<and> chartData (\<lambda>t. t) [logOf (Num (2 / 10)), logOf (Num (8 / 10))] ! 0 =
       \<lparr>chartName = ''#2'', chartProbability = Str ''80.00'', chartTimestamp = ''t''\<rparr>
   \<and> times100 (Num (8 / 10)) = Num 80
   \<and> \<bar>of_nat (nearest 2 80) / 10 ^ 2 - (80 :: rat)\<bar> \<le> 1 / (2 * 10 ^ 2)"
proof -
  have l: "(0::nat) < length [logOf (Num (2 / 10)), logOf (Num (8 / 10))]" by simp
  have t: "times100 (Num (8 / 10)) = Num 80"
    by (simp add: product_80)
  have p: "times100 (logProbability ([logOf (Num (2 / 10)), logOf (Num (8 / 10))] !
      (length [logOf (Num (2 / 10)), logOf (Num (8 / 10))] - 1 - 0))) = Num 80 \<and> (0::rat) \<le> 80
      \<and> (80::rat) < 10 ^ 21"
    by (simp add: logOf_def product_80)
  have "\<bar>of_nat (nearest 2 80) / 10 ^ 2 - (80 :: rat)\<bar> \<le> 1 / (2 * 10 ^ 2)"
    using chart_points_in_reverse [OF l, of "\<lambda>t. t" 80] p by blast
  then show ?thesis
    using t unfolding chart_of_two by simp
qed

text \<open>C8 as stated fails: of two entries with probabilities 0.2 and 0.8 the first point
  of the chart is the one of the second entry.\<close>

theorem first_chart_point_is_last_entry:
  "chartData (\<lambda>t. t) [logOf (Num (2 / 10)), logOf (Num (8 / 10))] =
     [\<lparr>chartName = ''#2'', chartProbability = Str ''80.00'', chartTimestamp = ''t''\<rparr>,
      \<lparr>chartName = ''#1'', chartProbability = Str ''20.00'', chartTimestamp = ''t''\<rparr>]
   \<and> toFixed 2 (times100 (logProbability ([logOf (Num (2 / 10)), logOf (Num (8 / 10))] ! 0)))
       = Str ''20.00''
   \<and> chartProbability (chartData (\<lambda>t. t) [logOf (Num (2 / 10)), logOf (Num (8 / 10))] ! 0)
       \<noteq> toFixed 2 (times100 (logProbability ([logOf (Num (2 / 10)), logOf (Num (8 / 10))] ! 0)))"
proof -
  have t: "toFixed 2 (times100 (logProbability ([logOf (Num (2 / 10)), logOf (Num (8 / 10))] ! 0)))
       = Str ''20.00''"
    by (simp add: logOf_def product_20 shown_20)
  show ?thesis
    unfolding t unfolding chart_of_two by simp
qed

section \<open>The risk counts\<close>

lemma risk_partition:
  "length (filter (\<lambda>d. risk_level d = ''High'') data)
     + length (filter (\<lambda>d. risk_level d = ''Medium'') data)
     + length (filter (\<lambda>d. risk_level d \<noteq> ''High'' \<and> risk_level d \<noteq> ''Medium'') data)
   = length data"
  by (induction data) auto

lemma lowRiskCount_rest:
  "lowRiskCount data =
     int (length (filter (\<lambda>d. risk_level d \<noteq> ''High'' \<and> risk_level d \<noteq> ''Medium'') data))"
  using risk_partition [of data]
  by (simp add: lowRiskCount_def highRiskCount_def mediumRiskCount_def)

lemma three_levels_low:
  "list_all (\<lambda>d. risk_level d = ''High'' \<or> risk_level d = ''Medium'' \<or> risk_level d = ''Low'') data
   \<Longrightarrow> filter (\<lambda>d. risk_level d \<noteq> ''High'' \<and> risk_level d \<noteq> ''Medium'') data
       = filter (\<lambda>d. risk_level d = ''Low'') data"
  by (induction data) auto

text \<open>
  C9. The first two counts are the numbers of entries whose level is High and Medium;
  the third is the number of entries whose level is neither, so the three add up to the
  length of the list. On every list of risk tiers, where each level is one of High,
  Medium and Low, the third is the number of entries with level Low.
\<close>

theorem risk_counts:
  "highRiskCount data = int (length (filter (\<lambda>d. risk_level d = ''High'') data))
   \<and> mediumRiskCount data = int (length (filter (\<lambda>d. risk_level d = ''Medium'') data))
   \<and> lowRiskCount data =
       int (length (filter (\<lambda>d. risk_level d \<noteq> ''High'' \<and> risk_level d \<noteq> ''Medium'') data))
   \<and> highRiskCount data + mediumRiskCount data + lowRiskCount data = int (length data)
   \<and> (list_all (\<lambda>d. risk_level d = ''High'' \<or> risk_level d = ''Medium'' \<or> risk_level d = ''Low'')
         data \<longrightarrow>
       lowRiskCount data = int (length (filter (\<lambda>d. risk_level d = ''Low'') data)))"
proof (intro conjI impI)
  show "highRiskCount data = int (length (filter (\<lambda>d. risk_level d = ''High'') data))"
    by (simp add: highRiskCount_def)
  show "mediumRiskCount data = int (length (filter (\<lambda>d. risk_level d = ''Medium'') data))"
    by (simp add: mediumRiskCount_def)
  show "lowRiskCount data =
       int (length (filter (\<lambda>d. risk_level d \<noteq> ''High'' \<and> risk_level d \<noteq> ''Medium'') data))"
    by (rule lowRiskCount_rest)
  show "highRiskCount data + mediumRiskCount data + lowRiskCount data = int (length data)"
    by (simp add: lowRiskCount_def)
next
  assume "list_all (\<lambda>d. risk_level d = ''High'' \<or> risk_level d = ''Medium'' \<or> risk_level d = ''Low'')
         data"
  then show "lowRiskCount data = int (length (filter (\<lambda>d. risk_level d = ''Low'') data))"
    by (simp add: lowRiskCount_rest three_levels_low)
qed

text \<open>The theorem at a list of one High and two Low entries.\<close>

theorem risk_counts_witness:
  "list_all (\<lambda>d. risk_level d = ''High'' \<or> risk_level d = ''Medium'' \<or> risk_level d = ''Low'')
     [highGlucose, highGlucose\<lparr>risk_level := ''Low''\<rparr>, highGlucose\<lparr>risk_level := ''Low''\<rparr>]
   \<and> highRiskCount
        [highGlucose, highGlucose\<lparr>risk_level := ''Low''\<rparr>, highGlucose\<lparr>risk_level := ''Low''\<rparr>]
       = 1
   \<and> mediumRiskCount
        [highGlucose, highGlucose\<lparr>risk_level := ''Low''\<rparr>, highGlucose\<lparr>risk_level := ''Low''\<rparr>]
       = 0
   \<and> lowRiskCount
        [highGlucose, highGlucose\<lparr>risk_level := ''Low''\<rparr>, highGlucose\<lparr>risk_level := ''Low''\<rparr>]
       = 2"
  using risk_counts [of "[highGlucose, highGlucose\<lparr>risk_level := ''Low''\<rparr>,
        highGlucose\<lparr>risk_level := ''Low''\<rparr>]"]
  by (simp add: highGlucose_def)

end
